theory Spec2Isabelle
  imports Complex_Main
begin

section \<open>Geometry and robot instructions\<close>

text \<open>
  The run script \<^verbatim>\<open>src/bf3dp_fab/run/__main__.py\<close> handles frames of
  \<^verbatim>\<open>compas.geometry\<close> and instructions of \<^verbatim>\<open>compas_rrc\<close>. Both libraries are
  outside the repository; only the parts the script touches are represented, as plain
  data. Python floats are represented by \<^typ>\<open>real\<close>: comparisons agree with the
  floats' on every finite value, arithmetic is exact instead of rounded, and there is no
  NaN.
\<close>

record cg_point =
  px :: real
  py :: real
  pz :: real

record cg_vector =
  vx :: real
  vy :: real
  vz :: real

record cg_frame =
  point :: cg_point
  xaxis :: cg_vector
  yaxis :: cg_vector

text \<open>\<^verbatim>\<open>Point.__add__\<close> and \<^verbatim>\<open>Point.__truediv__\<close>: componentwise.\<close>

definition point_add :: "cg_point \<Rightarrow> cg_point \<Rightarrow> cg_point" where
  "point_add a b = \<lparr>px = px a + px b, py = py a + py b, pz = pz a + pz b\<rparr>"

definition point_div :: "cg_point \<Rightarrow> real \<Rightarrow> cg_point" where
  "point_div a n = \<lparr>px = px a / n, py = py a / n, pz = pz a / n\<rparr>"

datatype zone = FINE | Z1 | Z5 | Z10

datatype motion = JOINT | LINEAR

text \<open>
  Texts that the script prints or sends. The two f-strings are kept structured, with the
  values they interpolate: \<open>Joint_out_of_bounds (i + 1) min_ max_ joint\<close> stands for
  \<^verbatim>\<open>f"Joint number {i + 1} out of bounds. Min: {min_}, max: {max_}, actual: {joint}"\<close>
  and \<open>Extrusion_done i n_extrusions\<close> for \<^verbatim>\<open>f"Extrusion number {i}/{n_extrusions} done."\<close>.
\<close>

datatype message =
    Str string
  | Joint_out_of_bounds nat int int real
  | Extrusion_done nat nat

datatype instruction =
    SetAcceleration int int
  | SetMaxSpeed int int
  | SetDigital string int
  | SetTool string
  | SetWorkObject string
  | MoveToJoints "real list" "real list" int zone
  | MoveToFrame cg_frame int zone motion
  | WaitTime real
  | PrintText message
  | GetJoints

text \<open>
  What the script does to the outside, in program order: \<^verbatim>\<open>abb.send\<close> (fire and
  forget), \<^verbatim>\<open>abb.send_and_wait\<close> (awaited), \<^verbatim>\<open>print\<close>, and the three calls on the
  ROS client.
\<close>

datatype event =
    Ros_run
  | Ros_close
  | Ros_terminate
  | Print message
  | Send instruction
  | Send_and_wait instruction

datatype error = IndexError | AttributeError | Exception string

section \<open>Module constants\<close>

definition STEPPER_FORWARD_DO :: string where "STEPPER_FORWARD_DO = ''DO_9''"
definition STEPPER_BACKWARDS_DO :: string where "STEPPER_BACKWARDS_DO = ''DO_10''"
definition PRESSURE_DO :: string where "PRESSURE_DO = ''DO_1''"
definition TRAVEL_SPEED :: int where "TRAVEL_SPEED = 250"
definition PRINT_SPEED :: int where "PRINT_SPEED = 250"
definition EXTERNAL_AXES_DUMMY :: "real list" where "EXTERNAL_AXES_DUMMY = []"
definition TOOL :: string where "TOOL = ''t_3dp_clay''"
definition WOBJ :: string where "WOBJ = ''w_3dp_clay''"
definition EXTRUSION_SPEED_MM_PER_SEC :: real where "EXTRUSION_SPEED_MM_PER_SEC = 10.6"
definition EXTRUSION_LENGTH :: real where "EXTRUSION_LENGTH = 28"

definition PAUSE_AT_PT_SECONDS :: real where
  "PAUSE_AT_PT_SECONDS = EXTRUSION_LENGTH / EXTRUSION_SPEED_MM_PER_SEC"

definition HOME_POS :: "real list" where "HOME_POS = [0, 0, 0, 0, 0, 180]"
definition RESET_POS :: "real list" where "RESET_POS = [0, 0, 10, 0, 20, 180]"

definition OK_RANGES :: "(int \<times> int) list" where
  "OK_RANGES = [(-90, 90), (-360, 360), (-180, 180), (-100, 100), (-360, 360), (0, 360)]"

text \<open>
  The three module constants that select a run's behaviour are gathered in a record, so
  that a property can be stated for every value of them; \<open>source_config\<close> holds the values
  the script assigns. \<open>START_FROM\<close> is a natural number, as the script's literal is.
\<close>

record config =
  DRY_RUN :: bool
  START_FROM :: nat
  Z_HOP :: real

definition source_config :: config where
  "source_config = \<lparr>DRY_RUN = False, START_FROM = 449, Z_HOP = 30\<rparr>"

section \<open>The joint check\<close>

text \<open>
  \<^verbatim>\<open>is_robot_joints_ok\<close>: the loop over \<^verbatim>\<open>enumerate(zip(robot_joints, OK_RANGES))\<close>,
  with the index \<open>i\<close> of the current pair (\<open>min_v\<close> and \<open>max_v\<close> are the
  script's \<^verbatim>\<open>min_\<close> and \<^verbatim>\<open>max_\<close>). It returns what it printed and its result.
\<close>

fun joints_loop :: "nat \<Rightarrow> (real \<times> int \<times> int) list \<Rightarrow> message list \<times> bool" where
  "joints_loop i [] = ([], True)"
| "joints_loop i ((joint, min_v, max_v) # rest) =
     (if \<not> (real_of_int min_v < joint \<and> joint < real_of_int max_v)
      then ([Joint_out_of_bounds (i + 1) min_v max_v joint], False)
      else joints_loop (i + 1) rest)"

definition is_robot_joints_ok :: "real list \<Rightarrow> message list \<times> bool" where
  "is_robot_joints_ok robot_joints = joints_loop 0 (zip robot_joints OK_RANGES)"

section \<open>The run\<close>

record state =
  trace :: "event list"
  highest_placed :: "cg_frame option"

text \<open>A raised exception carries the state it was raised in: what was sent stays sent.\<close>

type_synonym result = "(error \<times> state) + state"

definition emit :: "event \<Rightarrow> state \<Rightarrow> state" where
  "emit ev st = st\<lparr>trace := trace st @ [ev]\<rparr>"

definition send :: "instruction \<Rightarrow> state \<Rightarrow> state" where
  "send instr st = emit (Send instr) st"

definition send_and_wait :: "instruction \<Rightarrow> state \<Rightarrow> state" where
  "send_and_wait instr st = emit (Send_and_wait instr) st"

definition print :: "message \<Rightarrow> state \<Rightarrow> state" where
  "print msg st = emit (Print msg) st"

fun prints :: "message list \<Rightarrow> state \<Rightarrow> state" where
  "prints [] st = st"
| "prints (msg # msgs) st = prints msgs (print msg st)"

text \<open>List indexing with an index that is not negative.\<close>

definition getitem :: "'a list \<Rightarrow> nat \<Rightarrow> error + 'a" where
  "getitem xs i = (if i < length xs then Inr (xs ! i) else Inl IndexError)"

text \<open>
  Lines 133 to 136. \<^verbatim>\<open>not highest_placed\<close> holds of \<^verbatim>\<open>None\<close> only: a frame is
  never falsy. The copy the second branch takes is the same value.
\<close>

definition update_highest_placed :: "cg_frame \<Rightarrow> cg_frame option \<Rightarrow> cg_frame option" where
  "update_highest_placed extrude_frame hp =
     (case hp of
        None \<Rightarrow> Some extrude_frame
      | Some h \<Rightarrow>
          if pz (point extrude_frame) > pz (point h) then Some extrude_frame else Some h)"

text \<open>
  Lines 156 to 168: the frame of the transit move, from the entry frame of the current
  element, the entry frame of the next one and the highest frame placed. The constructor
  \<^verbatim>\<open>cg.Frame\<close> is given the axes of a frame, which it keeps.
\<close>

definition safe_midpoint_frame :: "real \<Rightarrow> cg_frame \<Rightarrow> cg_frame \<Rightarrow> cg_frame \<Rightarrow> cg_frame" where
  "safe_midpoint_frame z_hop entry_frame next_entry_frame highest =
     (let midpoint_exit_next_entry =
            point_div (point_add (point entry_frame) (point next_entry_frame)) 2;
          safe_midpoint_z = pz (point highest) + z_hop;
          safe_midpoint =
            \<lparr>px = px midpoint_exit_next_entry, py = py midpoint_exit_next_entry,
             pz = safe_midpoint_z\<rparr>
      in \<lparr>point = safe_midpoint, xaxis = xaxis next_entry_frame,
          yaxis = yaxis next_entry_frame\<rparr>)"

text \<open>
  The body of the \<^verbatim>\<open>try\<close> (lines 155 to 174). Reading \<^verbatim>\<open>travel_frames[i + 1]\<close>
  raises \<^verbatim>\<open>IndexError\<close> past the end; \<^verbatim>\<open>highest_placed.point\<close> would raise
  \<^verbatim>\<open>AttributeError\<close> on \<^verbatim>\<open>None\<close>.
\<close>

definition transit :: "config \<Rightarrow> cg_frame list \<Rightarrow> nat \<Rightarrow> cg_frame \<Rightarrow> state \<Rightarrow> result" where
  "transit cfg travel_frames i entry_frame st =
     (case getitem travel_frames (i + 1) of
        Inl e \<Rightarrow> Inl (e, st)
      | Inr next_entry_frame \<Rightarrow>
          (case highest_placed st of
             None \<Rightarrow> Inl (AttributeError, st)
           | Some highest \<Rightarrow>
               Inr (send_and_wait
                     (MoveToFrame (safe_midpoint_frame (Z_HOP cfg) entry_frame next_entry_frame highest)
                        TRAVEL_SPEED Z5 JOINT) st)))"

text \<open>\<^verbatim>\<open>try: ... except IndexError: pass\<close>: only \<^verbatim>\<open>IndexError\<close> is caught.\<close>

definition except_IndexError_pass :: "result \<Rightarrow> result" where
  "except_IndexError_pass r =
     (case r of
        Inl (e, st) \<Rightarrow> if e = IndexError then Inr st else Inl (e, st)
      | Inr st \<Rightarrow> Inr st)"

text \<open>
  The body of the \<^verbatim>\<open>for\<close> loop (lines 104 to 176) at index \<open>i\<close>. \<open>robot i\<close> is the
  joint reading the robot answers to the \<^verbatim>\<open>GetJoints\<close> of this iteration.
\<close>

definition per_element ::
  "config \<Rightarrow> cg_frame list \<Rightarrow> cg_frame list \<Rightarrow> (nat \<Rightarrow> real list) \<Rightarrow> nat \<Rightarrow> nat \<Rightarrow> state \<Rightarrow> result"
where
  "per_element cfg extrude_frames travel_frames robot n_extrusions i st0 =
     (case getitem travel_frames i of
        Inl e \<Rightarrow> Inl (e, st0)
      | Inr travel_frame \<Rightarrow>
     (case getitem extrude_frames i of
        Inl e \<Rightarrow> Inl (e, st0)
      | Inr extrude_frame \<Rightarrow>
     (let entry_frame = travel_frame;
          exit_frame = travel_frame;
          st = send (MoveToFrame entry_frame TRAVEL_SPEED Z1 JOINT) st0;
          st = send (MoveToFrame extrude_frame PRINT_SPEED FINE LINEAR) st;
          st = (if \<not> DRY_RUN cfg then send (SetDigital STEPPER_FORWARD_DO 1) st else st);
          st = send (WaitTime PAUSE_AT_PT_SECONDS) st;
          st = send (SetDigital STEPPER_FORWARD_DO 0) st;
          st = (if \<not> DRY_RUN cfg
                then send (WaitTime 0.5) (send (SetDigital STEPPER_BACKWARDS_DO 1) st)
                else st);
          st = send (SetDigital STEPPER_BACKWARDS_DO 0) st;
          msg = Extrusion_done i n_extrusions;
          st = print msg st;
          st = send (PrintText msg) st;
          st = st\<lparr>highest_placed := update_highest_placed extrude_frame (highest_placed st)\<rparr>;
          st = send (MoveToFrame exit_frame TRAVEL_SPEED Z1 LINEAR) st;
          st = send_and_wait GetJoints st;
          robot_joints = robot i;
          checked = is_robot_joints_ok robot_joints;
          st = prints (fst checked) st;
          st = (if \<not> snd checked
                then send (MoveToJoints RESET_POS EXTERNAL_AXES_DUMMY TRAVEL_SPEED Z10)
                       (send (PrintText (Str ''Resetting joint positions.'')) st)
                else st)
      in except_IndexError_pass (transit cfg travel_frames i entry_frame st))))"

text \<open>\<^verbatim>\<open>for i in ...\<close>: the body at each index in turn, until one raises.\<close>

fun for_loop :: "(nat \<Rightarrow> state \<Rightarrow> result) \<Rightarrow> nat list \<Rightarrow> state \<Rightarrow> result" where
  "for_loop body [] st = Inr st"
| "for_loop body (i # is) st =
     (case body i st of Inl err \<Rightarrow> Inl err | Inr st' \<Rightarrow> for_loop body is st')"

text \<open>Lines 55 to 88: everything before the frames are loaded.\<close>

definition pre_run :: "config \<Rightarrow> state" where
  "pre_run cfg =
     (let st = \<lparr>trace = [], highest_placed = None\<rparr>;
          st = emit Ros_run st;
          st = print (Str ''Connected.'') st;
          st = send (SetAcceleration 100 100) st;
          st = send (SetMaxSpeed 100 250) st;
          st = send (SetDigital STEPPER_FORWARD_DO 0) st;
          st = send (SetDigital STEPPER_BACKWARDS_DO 0) st;
          st = send (SetDigital PRESSURE_DO 0) st;
          st = send (SetTool TOOL) st;
          st = send (SetWorkObject WOBJ) st;
          st = print (Str ''Tool, Wobj, Acc and MaxSpeed sent to robot'') st;
          st = (if \<not> DRY_RUN cfg then send (SetDigital PRESSURE_DO 1) st else st)
      in send (MoveToJoints HOME_POS EXTERNAL_AXES_DUMMY TRAVEL_SPEED FINE) st)"

text \<open>Lines 178 to 185: everything after the loop.\<close>

definition post_run :: "state \<Rightarrow> state" where
  "post_run st =
     emit Ros_terminate
       (emit Ros_close
         (send (SetDigital PRESSURE_DO 0)
           (send (MoveToJoints HOME_POS EXTERNAL_AXES_DUMMY TRAVEL_SPEED FINE) st)))"

text \<open>
  The script, from the two lists of the frames file and the robot's answers. The result is
  \<open>Inr\<close> of the final state when the script ends, \<open>Inl\<close> of the exception and the state
  when it raises.
\<close>

definition run :: "config \<Rightarrow> cg_frame list \<Rightarrow> cg_frame list \<Rightarrow> (nat \<Rightarrow> real list) \<Rightarrow> result" where
  "run cfg extrude_frames travel_frames robot =
     (let st = pre_run cfg in
      if length extrude_frames \<noteq> length travel_frames
      then Inl (Exception ''Lengths of extrude_frames and travel_frames do not match'', st)
      else
        (let n_extrusions = length extrude_frames in
         case for_loop (per_element cfg extrude_frames travel_frames robot n_extrusions)
                [START_FROM cfg ..< n_extrusions] st of
           Inl err \<Rightarrow> Inl err
         | Inr st' \<Rightarrow> Inr (post_run st')))"

section \<open>Observations\<close>

text \<open>
  What the properties below observe of a run. None of this is code of the script.
\<close>

text \<open>A range holds a joint strictly inside: \<^verbatim>\<open>min_ < joint < max_\<close>.\<close>

abbreviation strictly_within :: "int \<times> int \<Rightarrow> real \<Rightarrow> bool" where
  "strictly_within range_v joint \<equiv>
     real_of_int (fst range_v) < joint \<and> joint < real_of_int (snd range_v)"

text \<open>The events of a result, raised or not, and the exception if one was raised.\<close>

definition events :: "result \<Rightarrow> event list" where
  "events r = (case r of Inl (e, st) \<Rightarrow> trace st | Inr st \<Rightarrow> trace st)"

definition raised :: "result \<Rightarrow> error option" where
  "raised r = (case r of Inl (e, st) \<Rightarrow> Some e | Inr st \<Rightarrow> None)"

text \<open>
  The events of one iteration of the loop: those of the body started on an empty trace,
  with \<open>hp\<close> the highest frame placed before it.
\<close>

definition cycle_events ::
  "config \<Rightarrow> cg_frame list \<Rightarrow> cg_frame list \<Rightarrow> (nat \<Rightarrow> real list) \<Rightarrow> nat \<Rightarrow> nat
     \<Rightarrow> cg_frame option \<Rightarrow> event list"
where
  "cycle_events cfg extrude_frames travel_frames robot n_extrusions i hp =
     events (per_element cfg extrude_frames travel_frames robot n_extrusions i
               \<lparr>trace = [], highest_placed = hp\<rparr>)"

text \<open>Motion commands, however they are sent.\<close>

fun is_motion_instruction :: "instruction \<Rightarrow> bool" where
  "is_motion_instruction (MoveToJoints joints ext speed z) = True"
| "is_motion_instruction (MoveToFrame frame speed z m) = True"
| "is_motion_instruction instr = False"

fun is_motion :: "event \<Rightarrow> bool" where
  "is_motion (Send instr) = is_motion_instruction instr"
| "is_motion (Send_and_wait instr) = is_motion_instruction instr"
| "is_motion ev = False"

text \<open>Awaited commands.\<close>

fun is_awaited :: "event \<Rightarrow> bool" where
  "is_awaited (Send_and_wait instr) = True"
| "is_awaited ev = False"

text \<open>The frames that the \<^verbatim>\<open>MoveToFrame\<close> commands of a trace go to, in order.\<close>

fun frame_of :: "instruction \<Rightarrow> cg_frame list" where
  "frame_of (MoveToFrame frame speed z m) = [frame]"
| "frame_of instr = []"

fun target_of :: "event \<Rightarrow> cg_frame list" where
  "target_of (Send instr) = frame_of instr"
| "target_of (Send_and_wait instr) = frame_of instr"
| "target_of ev = []"

definition move_targets :: "event list \<Rightarrow> cg_frame list" where
  "move_targets evs = concat (map target_of evs)"

text \<open>
  The value a digital output holds after a trace: that of the last \<^verbatim>\<open>SetDigital\<close> sent
  for it, if any.
\<close>

fun set_signal :: "string \<Rightarrow> event \<Rightarrow> int option \<Rightarrow> int option" where
  "set_signal d (Send (SetDigital d' v)) old = (if d' = d then Some v else old)"
| "set_signal d (Send_and_wait (SetDigital d' v)) old = (if d' = d then Some v else old)"
| "set_signal d ev old = old"

definition signal_value :: "string \<Rightarrow> event list \<Rightarrow> int option" where
  "signal_value d evs = fold (set_signal d) evs None"

text \<open>
  The end of the loop body as the specification words it: a bounds check
  \<^verbatim>\<open>i + 1 < n\<close> in place of the \<^verbatim>\<open>try\<close> and its handler. With a next
  element, plan the transit and await the move; without one, skip it.
\<close>

definition transit_bounds_check ::
  "config \<Rightarrow> cg_frame list \<Rightarrow> nat \<Rightarrow> cg_frame \<Rightarrow> state \<Rightarrow> result"
where
  "transit_bounds_check cfg travel_frames i exit_frame st =
     (if i + 1 < length travel_frames
      then (case highest_placed st of
              None \<Rightarrow> Inl (AttributeError, st)
            | Some highest \<Rightarrow>
                Inr (send_and_wait
                      (MoveToFrame
                         (safe_midpoint_frame (Z_HOP cfg) exit_frame (travel_frames ! (i + 1)) highest)
                         TRAVEL_SPEED Z5 JOINT) st))
      else Inr st)"

text \<open>Frames and robot answers for concrete runs.\<close>

definition frame_at :: "real \<Rightarrow> real \<Rightarrow> real \<Rightarrow> cg_frame" where
  "frame_at a b c =
     \<lparr>point = \<lparr>px = a, py = b, pz = c\<rparr>, xaxis = \<lparr>vx = 1, vy = 0, vz = 0\<rparr>,
      yaxis = \<lparr>vx = 0, vy = 1, vz = 0\<rparr>\<rparr>"

definition robot_at_home :: "nat \<Rightarrow> real list" where
  "robot_at_home i = HOME_POS"

definition travel_two :: "cg_frame list" where
  "travel_two = [frame_at 0 0 50, frame_at 10 20 50]"

definition extrude_two :: "cg_frame list" where
  "extrude_two = [frame_at 0 0 10, frame_at 10 20 25]"

definition travel_three :: "cg_frame list" where
  "travel_three = [frame_at 0 0 50, frame_at 10 20 50, frame_at 20 0 50]"

definition extrude_three :: "cg_frame list" where
  "extrude_three = [frame_at 0 0 10, frame_at 10 20 25, frame_at 20 0 5]"

text \<open>The script's configuration as a dry run, and started at the first element.\<close>

definition dry_config :: config where
  "dry_config = source_config\<lparr>DRY_RUN := True\<rparr>"

definition from_start :: config where
  "from_start = source_config\<lparr>START_FROM := 0\<rparr>"

section \<open>The joint check: properties\<close>

lemma joints_loop_snd:
  "snd (joints_loop k ps) \<longleftrightarrow> (\<forall>i<length ps. strictly_within (snd (ps ! i)) (fst (ps ! i)))"
proof (induction ps arbitrary: k)
  case Nil
  show ?case by simp
next
  case (Cons p ps)
  obtain joint min_v max_v where p: "p = (joint, min_v, max_v)" by (cases p)
  show ?case
    unfolding p using Cons.IH [of "k + 1"]
    by (auto simp: less_Suc_eq_0_disj)
qed

lemma joints_loop_quiet: "snd (joints_loop k ps) \<Longrightarrow> fst (joints_loop k ps) = []"
proof (induction ps arbitrary: k)
  case Nil
  show ?case by simp
next
  case (Cons p ps)
  obtain joint min_v max_v where p: "p = (joint, min_v, max_v)" by (cases p)
  from Cons.prems Cons.IH [of "k + 1"] show ?case
    unfolding p by (simp split: if_splits)
qed

lemma joints_loop_first:
  "\<not> snd (joints_loop k ps) \<Longrightarrow>
   \<exists>m<length ps. (\<forall>i<m. strictly_within (snd (ps ! i)) (fst (ps ! i)))
      \<and> \<not> strictly_within (snd (ps ! m)) (fst (ps ! m))
      \<and> fst (joints_loop k ps) =
          [Joint_out_of_bounds (k + m + 1) (fst (snd (ps ! m))) (snd (snd (ps ! m))) (fst (ps ! m))]"
proof (induction ps arbitrary: k)
  case Nil
  then show ?case by simp
next
  case (Cons p ps)
  obtain joint min_v max_v where p: "p = (joint, min_v, max_v)" by (cases p)
  show ?case
  proof (cases "real_of_int min_v < joint \<and> joint < real_of_int max_v")
    case False
    then have "fst (joints_loop k (p # ps)) = [Joint_out_of_bounds (k + 0 + 1) min_v max_v joint]"
      unfolding p by simp
    with False show ?thesis
      unfolding p by (intro exI [of _ 0]) simp
  next
    case True
    then have eq: "joints_loop k (p # ps) = joints_loop (k + 1) ps"
      unfolding p by simp
    with Cons.prems have "\<not> snd (joints_loop (k + 1) ps)" by simp
    from Cons.IH [OF this] obtain m where m: "m < length ps"
      "\<forall>i<m. strictly_within (snd (ps ! i)) (fst (ps ! i))"
      "\<not> strictly_within (snd (ps ! m)) (fst (ps ! m))"
      "fst (joints_loop (k + 1) ps) =
          [Joint_out_of_bounds (k + 1 + m + 1) (fst (snd (ps ! m))) (snd (snd (ps ! m))) (fst (ps ! m))]"
      by blast
    have "\<forall>i<Suc m. strictly_within (snd ((p # ps) ! i)) (fst ((p # ps) ! i))"
      using m(2) True unfolding p by (auto simp: less_Suc_eq_0_disj)
    with m eq show ?thesis
      by (intro exI [of _ "Suc m"]) simp
  qed
qed


lemma zip_ranges_nth:
  "i < length js \<Longrightarrow> i < length OK_RANGES \<Longrightarrow>
   fst (zip js OK_RANGES ! i) = js ! i \<and> snd (zip js OK_RANGES ! i) = OK_RANGES ! i"
  by simp

lemma is_robot_joints_ok_snd:
  "snd (is_robot_joints_ok js) \<longleftrightarrow>
     (\<forall>i<min (length js) (length OK_RANGES). strictly_within (OK_RANGES ! i) (js ! i))"
  unfolding is_robot_joints_ok_def joints_loop_snd by simp

lemma is_robot_joints_ok_first:
  assumes "\<not> snd (is_robot_joints_ok js)"
  shows "\<exists>m<min (length js) (length OK_RANGES).
           (\<forall>i<m. strictly_within (OK_RANGES ! i) (js ! i))
         \<and> \<not> strictly_within (OK_RANGES ! m) (js ! m)
         \<and> fst (is_robot_joints_ok js) =
             [Joint_out_of_bounds (m + 1) (fst (OK_RANGES ! m)) (snd (OK_RANGES ! m)) (js ! m)]"
proof -
  let ?ps = "zip js OK_RANGES"
  from assms have "\<not> snd (joints_loop 0 ?ps)"
    by (simp add: is_robot_joints_ok_def)
  from joints_loop_first [OF this] obtain m where m: "m < length ?ps"
    "\<forall>i<m. strictly_within (snd (?ps ! i)) (fst (?ps ! i))"
    "\<not> strictly_within (snd (?ps ! m)) (fst (?ps ! m))"
    "fst (joints_loop 0 ?ps) =
       [Joint_out_of_bounds (0 + m + 1) (fst (snd (?ps ! m))) (snd (snd (?ps ! m))) (fst (?ps ! m))]"
    by blast
  from m(1) have lt: "m < length js" "m < length OK_RANGES" by simp_all
  have "\<forall>i<m. strictly_within (OK_RANGES ! i) (js ! i)"
    using m(2) lt by simp
  moreover have "\<not> strictly_within (OK_RANGES ! m) (js ! m)"
    using m(3) lt by simp
  moreover have "fst (is_robot_joints_ok js) =
      [Joint_out_of_bounds (m + 1) (fst (OK_RANGES ! m)) (snd (OK_RANGES ! m)) (js ! m)]"
    using m(4) lt by (simp add: is_robot_joints_ok_def)
  ultimately show ?thesis using lt by auto
qed

lemma length_OK_RANGES: "length OK_RANGES = 6"
  by (simp add: OK_RANGES_def)

text \<open>
  C2. For a reading of six joints, the check answers \<open>True\<close> exactly when every joint
  lies strictly inside its range, the ranges being those listed, in that order; a joint equal
  to a bound is outside. When it answers \<open>False\<close> it prints one message, for the first joint
  outside its range, whatever the later ones are.
\<close>

theorem joints_check_six_axes:
  assumes "length js = 6"
  shows "OK_RANGES = [(-90, 90), (-360, 360), (-180, 180), (-100, 100), (-360, 360), (0, 360)]
    \<and> (snd (is_robot_joints_ok js) \<longleftrightarrow> (\<forall>i<6. strictly_within (OK_RANGES ! i) (js ! i)))
    \<and> (snd (is_robot_joints_ok js) \<longrightarrow> fst (is_robot_joints_ok js) = [])
    \<and> (\<not> snd (is_robot_joints_ok js) \<longrightarrow>
         (\<exists>m<6. (\<forall>i<m. strictly_within (OK_RANGES ! i) (js ! i))
            \<and> \<not> strictly_within (OK_RANGES ! m) (js ! m)
            \<and> fst (is_robot_joints_ok js) =
                [Joint_out_of_bounds (m + 1) (fst (OK_RANGES ! m)) (snd (OK_RANGES ! m)) (js ! m)]))"
proof (intro conjI impI)
  show "OK_RANGES = [(-90, 90), (-360, 360), (-180, 180), (-100, 100), (-360, 360), (0, 360)]"
    by (fact OK_RANGES_def)
  show "snd (is_robot_joints_ok js) \<longleftrightarrow> (\<forall>i<6. strictly_within (OK_RANGES ! i) (js ! i))"
    using assms by (simp add: is_robot_joints_ok_snd length_OK_RANGES)
  show "fst (is_robot_joints_ok js) = []" if "snd (is_robot_joints_ok js)"
    using that by (simp add: is_robot_joints_ok_def joints_loop_quiet)
  show "\<exists>m<6. (\<forall>i<m. strictly_within (OK_RANGES ! i) (js ! i))
            \<and> \<not> strictly_within (OK_RANGES ! m) (js ! m)
            \<and> fst (is_robot_joints_ok js) =
                [Joint_out_of_bounds (m + 1) (fst (OK_RANGES ! m)) (snd (OK_RANGES ! m)) (js ! m)]"
    if "\<not> snd (is_robot_joints_ok js)"
    using is_robot_joints_ok_first [OF that] assms by (simp add: length_OK_RANGES)
qed

text \<open>
  A reading with its first joint on the bound and its second joint far outside: the first
  joint is the one reported. A reading just inside the first range is accepted.
\<close>

theorem joints_check_six_axes_witness:
  "length [90, 400, 0, 0, 0, 180 :: real] = 6
   \<and> \<not> snd (is_robot_joints_ok [90, 400, 0, 0, 0, 180])
   \<and> fst (is_robot_joints_ok [90, 400, 0, 0, 0, 180]) = [Joint_out_of_bounds 1 (-90) 90 90]
   \<and> snd (is_robot_joints_ok [89.999, 0, 0, 0, 0, 180])"
  using joints_check_six_axes [of "[90, 400, 0, 0, 0, 180]"]
  by (simp add: is_robot_joints_ok_def OK_RANGES_def)

text \<open>
  C10. For a reading of fewer than six joints, the check looks at the joints present only:
  it answers \<open>True\<close> exactly when each of them lies strictly inside the range of its
  position. The empty reading is accepted.
\<close>

theorem joints_check_short_reading:
  assumes "length js < 6"
  shows "(snd (is_robot_joints_ok js) \<longleftrightarrow> (\<forall>i<length js. strictly_within (OK_RANGES ! i) (js ! i)))
    \<and> is_robot_joints_ok [] = ([], True)"
proof
  from assms have "min (length js) (length OK_RANGES) = length js"
    by (simp add: length_OK_RANGES)
  then show "snd (is_robot_joints_ok js) \<longleftrightarrow>
      (\<forall>i<length js. strictly_within (OK_RANGES ! i) (js ! i))"
    by (simp add: is_robot_joints_ok_snd)
  show "is_robot_joints_ok [] = ([], True)"
    by (simp add: is_robot_joints_ok_def)
qed

text \<open>
  Readings of three, two and no joints.
\<close>

theorem joints_check_short_reading_witness:
  "length [0, 0, 500 :: real] < 6
   \<and> \<not> snd (is_robot_joints_ok [0, 0, 500])
   \<and> snd (is_robot_joints_ok [0, 0])
   \<and> is_robot_joints_ok [] = ([], True)"
  using joints_check_short_reading [of "[0, 0, 500]"]
  by (simp add: is_robot_joints_ok_def OK_RANGES_def)

section \<open>The transit frame\<close>

text \<open>
  C3. The frame of the transit move has for x and y the arithmetic means of the x and y of
  the two frames, for z the z of the highest frame placed plus the hop height, whatever the
  z of the two frames, and the axes of the next entry frame.
\<close>

theorem safe_midpoint_frame_components:
  "px (point (safe_midpoint_frame hop current_exit next_entry highest)) =
     (px (point current_exit) + px (point next_entry)) / 2
   \<and> py (point (safe_midpoint_frame hop current_exit next_entry highest)) =
     (py (point current_exit) + py (point next_entry)) / 2
   \<and> pz (point (safe_midpoint_frame hop current_exit next_entry highest)) =
     pz (point highest) + hop
   \<and> xaxis (safe_midpoint_frame hop current_exit next_entry highest) = xaxis next_entry
   \<and> yaxis (safe_midpoint_frame hop current_exit next_entry highest) = yaxis next_entry
   \<and> safe_midpoint_frame hop
        (current_exit\<lparr>point := (point current_exit)\<lparr>pz := z1\<rparr>\<rparr>)
        (next_entry\<lparr>point := (point next_entry)\<lparr>pz := z2\<rparr>\<rparr>) highest =
      safe_midpoint_frame hop current_exit next_entry highest"
  by (simp add: safe_midpoint_frame_def point_add_def point_div_def)

text \<open>
  Between (0, 10, 7) and (4, 20, 9), over a highest element at z = 25 with a hop of 30.
\<close>

theorem safe_midpoint_frame_components_witness:
  "point (safe_midpoint_frame 30 (frame_at 0 10 7) (frame_at 4 20 9) (frame_at 1 1 25)) =
     \<lparr>px = 2, py = 15, pz = 55\<rparr>
   \<and> xaxis (safe_midpoint_frame 30 (frame_at 0 10 7) (frame_at 4 20 9) (frame_at 1 1 25)) =
     xaxis (frame_at 4 20 9)"
  using safe_midpoint_frame_components
    [of 30 "frame_at 0 10 7" "frame_at 4 20 9" "frame_at 1 1 25" 0 0]
  by (simp add: frame_at_def safe_midpoint_frame_def point_add_def point_div_def)

section \<open>One iteration of the loop\<close>

lemmas emit_defs = send_def send_and_wait_def print_def emit_def

lemma prints_trace: "prints msgs st = st\<lparr>trace := trace st @ map Print msgs\<rparr>"
  by (induction msgs arbitrary: st) (simp_all add: emit_defs)

lemma update_highest_placed_Some: "\<exists>h. update_highest_placed f hp = Some h"
  by (simp add: update_highest_placed_def split: option.split)

lemma transit_next:
  assumes "i + 1 < length travel_frames" and "highest_placed st = Some h"
  shows "transit cfg travel_frames i entry_frame st =
    Inr (st\<lparr>trace := trace st @
      [Send_and_wait (MoveToFrame
         (safe_midpoint_frame (Z_HOP cfg) entry_frame (travel_frames ! (i + 1)) h)
         TRAVEL_SPEED Z5 JOINT)]\<rparr>)"
  using assms by (simp add: transit_def getitem_def emit_defs)

lemma transit_last:
  assumes "\<not> i + 1 < length travel_frames"
  shows "transit cfg travel_frames i entry_frame st = Inl (IndexError, st)"
  using assms by (simp add: transit_def getitem_def)

lemma per_element_result:
  assumes "i < length travel_frames" and "i < length extrude_frames"
    and "update_highest_placed (extrude_frames ! i) (highest_placed st) = Some h"
  shows "per_element cfg extrude_frames travel_frames robot n i st =
    Inr \<lparr>trace = trace st @
        [Send (MoveToFrame (travel_frames ! i) TRAVEL_SPEED Z1 JOINT),
         Send (MoveToFrame (extrude_frames ! i) PRINT_SPEED FINE LINEAR)] @
        (if DRY_RUN cfg then [] else [Send (SetDigital STEPPER_FORWARD_DO 1)]) @
        [Send (WaitTime PAUSE_AT_PT_SECONDS), Send (SetDigital STEPPER_FORWARD_DO 0)] @
        (if DRY_RUN cfg then []
         else [Send (SetDigital STEPPER_BACKWARDS_DO 1), Send (WaitTime 0.5)]) @
        [Send (SetDigital STEPPER_BACKWARDS_DO 0),
         Print (Extrusion_done i n), Send (PrintText (Extrusion_done i n)),
         Send (MoveToFrame (travel_frames ! i) TRAVEL_SPEED Z1 LINEAR),
         Send_and_wait GetJoints] @
        map Print (fst (is_robot_joints_ok (robot i))) @
        (if snd (is_robot_joints_ok (robot i)) then []
         else [Send (PrintText (Str ''Resetting joint positions.'')),
               Send (MoveToJoints RESET_POS EXTERNAL_AXES_DUMMY TRAVEL_SPEED Z10)]) @
        (if i + 1 < length travel_frames
         then [Send_and_wait (MoveToFrame
                 (safe_midpoint_frame (Z_HOP cfg) (travel_frames ! i) (travel_frames ! (i + 1)) h)
                 TRAVEL_SPEED Z5 JOINT)]
         else []),
      highest_placed = Some h\<rparr>"
proof (cases "i + 1 < length travel_frames")
  case True
  with assms show ?thesis
    by (simp add: per_element_def getitem_def Let_def prints_trace emit_defs
        transit_next except_IndexError_pass_def)
next
  case False
  with assms show ?thesis
    by (simp add: per_element_def getitem_def Let_def prints_trace emit_defs
        transit_last except_IndexError_pass_def)
qed


lemma cycle_events_eq:
  assumes "i < length travel_frames" and "i < length extrude_frames"
    and "update_highest_placed (extrude_frames ! i) hp = Some h"
  shows "cycle_events cfg extrude_frames travel_frames robot n i hp =
        [Send (MoveToFrame (travel_frames ! i) TRAVEL_SPEED Z1 JOINT),
         Send (MoveToFrame (extrude_frames ! i) PRINT_SPEED FINE LINEAR)] @
        (if DRY_RUN cfg then [] else [Send (SetDigital STEPPER_FORWARD_DO 1)]) @
        [Send (WaitTime PAUSE_AT_PT_SECONDS), Send (SetDigital STEPPER_FORWARD_DO 0)] @
        (if DRY_RUN cfg then []
         else [Send (SetDigital STEPPER_BACKWARDS_DO 1), Send (WaitTime 0.5)]) @
        [Send (SetDigital STEPPER_BACKWARDS_DO 0),
         Print (Extrusion_done i n), Send (PrintText (Extrusion_done i n)),
         Send (MoveToFrame (travel_frames ! i) TRAVEL_SPEED Z1 LINEAR),
         Send_and_wait GetJoints] @
        map Print (fst (is_robot_joints_ok (robot i))) @
        (if snd (is_robot_joints_ok (robot i)) then []
         else [Send (PrintText (Str ''Resetting joint positions.'')),
               Send (MoveToJoints RESET_POS EXTERNAL_AXES_DUMMY TRAVEL_SPEED Z10)]) @
        (if i + 1 < length travel_frames
         then [Send_and_wait (MoveToFrame
                 (safe_midpoint_frame (Z_HOP cfg) (travel_frames ! i) (travel_frames ! (i + 1)) h)
                 TRAVEL_SPEED Z5 JOINT)]
         else [])"
proof -
  from assms(3) have "update_highest_placed (extrude_frames ! i)
      (highest_placed \<lparr>trace = [], highest_placed = hp\<rparr>) = Some h"
    by simp
  from per_element_result [OF assms(1,2) this, of cfg robot n] show ?thesis
    unfolding cycle_events_def events_def by simp
qed

lemma per_element_cycle:
  assumes "i < length travel_frames" and "i < length extrude_frames"
  shows "per_element cfg extrude_frames travel_frames robot n i st =
    Inr \<lparr>trace = trace st @ cycle_events cfg extrude_frames travel_frames robot n i (highest_placed st),
         highest_placed = update_highest_placed (extrude_frames ! i) (highest_placed st)\<rparr>"
proof -
  obtain h where h: "update_highest_placed (extrude_frames ! i) (highest_placed st) = Some h"
    using update_highest_placed_Some by blast
  show ?thesis
    unfolding per_element_result [OF assms h] cycle_events_eq [OF assms h] h by simp
qed

lemma filter_awaited_prints: "filter is_awaited (map Print msgs) = []"
  by (induction msgs) simp_all

lemma filter_motion_prints: "filter is_motion (map Print msgs) = []"
  by (induction msgs) simp_all

lemma move_targets_prints: "concat (map target_of (map Print msgs)) = []"
  by (induction msgs) simp_all

lemma pause_not_half: "PAUSE_AT_PT_SECONDS \<noteq> 0.5"
  by (simp add: PAUSE_AT_PT_SECONDS_def EXTRUSION_LENGTH_def EXTRUSION_SPEED_MM_PER_SEC_def)

lemma filter_motion_guarded:
  "filter is_motion
     (filter (\<lambda>ev. ev \<noteq> Send (SetDigital STEPPER_FORWARD_DO 1)
                    \<and> ev \<noteq> Send (SetDigital STEPPER_BACKWARDS_DO 1)
                    \<and> ev \<noteq> Send (WaitTime 0.5)) evs) = filter is_motion evs"
  unfolding filter_filter by (rule filter_cong) auto

section \<open>Dry run\<close>

text \<open>
  C5, as the script has it. In a dry run an iteration sends no assert (value 1) of the
  extrude-forward or of the retract signal and no wait of 0.5 s. The dwell wait of
  \<open>PAUSE_AT_PT_SECONDS\<close> and the two de-asserts (value 0) are still sent, and so is
  everything else: the events of a dry iteration are those of a live one without the two
  asserts and the short wait.
\<close>

theorem dry_run_cycle:
  assumes "i < length travel_frames" and "i < length extrude_frames" and "DRY_RUN cfg"
  shows "Send (SetDigital STEPPER_FORWARD_DO 1)
           \<notin> set (cycle_events cfg extrude_frames travel_frames robot n i hp)
    \<and> Send (SetDigital STEPPER_BACKWARDS_DO 1)
           \<notin> set (cycle_events cfg extrude_frames travel_frames robot n i hp)
    \<and> Send (WaitTime 0.5) \<notin> set (cycle_events cfg extrude_frames travel_frames robot n i hp)
    \<and> Send (WaitTime PAUSE_AT_PT_SECONDS)
           \<in> set (cycle_events cfg extrude_frames travel_frames robot n i hp)
    \<and> Send (SetDigital STEPPER_FORWARD_DO 0)
           \<in> set (cycle_events cfg extrude_frames travel_frames robot n i hp)
    \<and> Send (SetDigital STEPPER_BACKWARDS_DO 0)
           \<in> set (cycle_events cfg extrude_frames travel_frames robot n i hp)
    \<and> cycle_events cfg extrude_frames travel_frames robot n i hp =
        filter (\<lambda>ev. ev \<noteq> Send (SetDigital STEPPER_FORWARD_DO 1)
                    \<and> ev \<noteq> Send (SetDigital STEPPER_BACKWARDS_DO 1)
                    \<and> ev \<noteq> Send (WaitTime 0.5))
          (cycle_events (cfg\<lparr>DRY_RUN := False\<rparr>) extrude_frames travel_frames robot n i hp)
    \<and> filter is_motion (cycle_events cfg extrude_frames travel_frames robot n i hp) =
        filter is_motion
          (cycle_events (cfg\<lparr>DRY_RUN := False\<rparr>) extrude_frames travel_frames robot n i hp)"
proof -
  obtain h where h: "update_highest_placed (extrude_frames ! i) hp = Some h"
    using update_highest_placed_Some by blast
  note dry = cycle_events_eq [OF assms(1,2) h, of cfg robot n]
  note live = cycle_events_eq [OF assms(1,2) h, of "cfg\<lparr>DRY_RUN := False\<rparr>" robot n]
  have a: "Send (SetDigital STEPPER_FORWARD_DO 1)
           \<notin> set (cycle_events cfg extrude_frames travel_frames robot n i hp)"
    unfolding dry using assms(3) by auto
  have b: "Send (SetDigital STEPPER_BACKWARDS_DO 1)
           \<notin> set (cycle_events cfg extrude_frames travel_frames robot n i hp)"
    unfolding dry using assms(3) by auto
  have c: "Send (WaitTime 0.5) \<notin> set (cycle_events cfg extrude_frames travel_frames robot n i hp)"
    unfolding dry using assms(3) pause_not_half by auto
  have d: "Send (WaitTime PAUSE_AT_PT_SECONDS)
           \<in> set (cycle_events cfg extrude_frames travel_frames robot n i hp)"
    unfolding dry by simp
  have e: "Send (SetDigital STEPPER_FORWARD_DO 0)
           \<in> set (cycle_events cfg extrude_frames travel_frames robot n i hp)"
    unfolding dry by simp
  have f: "Send (SetDigital STEPPER_BACKWARDS_DO 0)
           \<in> set (cycle_events cfg extrude_frames travel_frames robot n i hp)"
    unfolding dry by simp
  have g: "cycle_events cfg extrude_frames travel_frames robot n i hp =
        filter (\<lambda>ev. ev \<noteq> Send (SetDigital STEPPER_FORWARD_DO 1)
                    \<and> ev \<noteq> Send (SetDigital STEPPER_BACKWARDS_DO 1)
                    \<and> ev \<noteq> Send (WaitTime 0.5))
          (cycle_events (cfg\<lparr>DRY_RUN := False\<rparr>) extrude_frames travel_frames robot n i hp)"
    unfolding dry live using assms(3) pause_not_half
    by (simp add: filter_map comp_def STEPPER_FORWARD_DO_def STEPPER_BACKWARDS_DO_def)
  have h: "filter is_motion (cycle_events cfg extrude_frames travel_frames robot n i hp) =
        filter is_motion
          (cycle_events (cfg\<lparr>DRY_RUN := False\<rparr>) extrude_frames travel_frames robot n i hp)"
    by (subst g) (rule filter_motion_guarded)
  from a b c d e f g h show ?thesis by blast
qed

text \<open>
  The first of two elements, in a dry run.
\<close>

theorem dry_run_cycle_witness:
  "0 < length travel_two \<and> 0 < length extrude_two \<and> DRY_RUN dry_config
   \<and> cycle_events dry_config extrude_two travel_two robot_at_home 2 0 None =
       [Send (MoveToFrame (frame_at 0 0 50) TRAVEL_SPEED Z1 JOINT),
        Send (MoveToFrame (frame_at 0 0 10) PRINT_SPEED FINE LINEAR),
        Send (WaitTime PAUSE_AT_PT_SECONDS),
        Send (SetDigital STEPPER_FORWARD_DO 0),
        Send (SetDigital STEPPER_BACKWARDS_DO 0),
        Print (Extrusion_done 0 2),
        Send (PrintText (Extrusion_done 0 2)),
        Send (MoveToFrame (frame_at 0 0 50) TRAVEL_SPEED Z1 LINEAR),
        Send_and_wait GetJoints,
        Send_and_wait (MoveToFrame
          \<lparr>point = \<lparr>px = 5, py = 10, pz = 40\<rparr>, xaxis = \<lparr>vx = 1, vy = 0, vz = 0\<rparr>,
           yaxis = \<lparr>vx = 0, vy = 1, vz = 0\<rparr>\<rparr> TRAVEL_SPEED Z5 JOINT)]
   \<and> Send (WaitTime 0.5) \<notin> set (cycle_events dry_config extrude_two travel_two robot_at_home 2 0 None)"
proof -
  have ev: "cycle_events dry_config extrude_two travel_two robot_at_home 2 0 None =
       [Send (MoveToFrame (frame_at 0 0 50) TRAVEL_SPEED Z1 JOINT),
        Send (MoveToFrame (frame_at 0 0 10) PRINT_SPEED FINE LINEAR),
        Send (WaitTime PAUSE_AT_PT_SECONDS),
        Send (SetDigital STEPPER_FORWARD_DO 0),
        Send (SetDigital STEPPER_BACKWARDS_DO 0),
        Print (Extrusion_done 0 2),
        Send (PrintText (Extrusion_done 0 2)),
        Send (MoveToFrame (frame_at 0 0 50) TRAVEL_SPEED Z1 LINEAR),
        Send_and_wait GetJoints,
        Send_and_wait (MoveToFrame
          \<lparr>point = \<lparr>px = 5, py = 10, pz = 40\<rparr>, xaxis = \<lparr>vx = 1, vy = 0, vz = 0\<rparr>,
           yaxis = \<lparr>vx = 0, vy = 1, vz = 0\<rparr>\<rparr> TRAVEL_SPEED Z5 JOINT)]"
    by (simp add: cycle_events_def events_def per_element_def getitem_def Let_def
        emit_defs transit_def except_IndexError_pass_def update_highest_placed_def
        safe_midpoint_frame_def point_add_def point_div_def frame_at_def
        travel_two_def extrude_two_def dry_config_def source_config_def
        robot_at_home_def HOME_POS_def is_robot_joints_ok_def OK_RANGES_def)
  have hyps: "0 < length travel_two" "0 < length extrude_two" "DRY_RUN dry_config"
    by (simp_all add: travel_two_def extrude_two_def dry_config_def)
  from dry_run_cycle [OF hyps, of robot_at_home 2 None] hyps ev show ?thesis
    by blast
qed

text \<open>
  The claim as stated fails here: a dry iteration still sends the dwell wait and both de-asserts.
\<close>

theorem dry_run_still_waits_and_deasserts:
  "DRY_RUN dry_config
   \<and> Send (WaitTime PAUSE_AT_PT_SECONDS)
        \<in> set (cycle_events dry_config extrude_two travel_two robot_at_home 2 0 None)
   \<and> Send (SetDigital STEPPER_FORWARD_DO 0)
        \<in> set (cycle_events dry_config extrude_two travel_two robot_at_home 2 0 None)
   \<and> Send (SetDigital STEPPER_BACKWARDS_DO 0)
        \<in> set (cycle_events dry_config extrude_two travel_two robot_at_home 2 0 None)"
  by (simp add: cycle_events_def events_def per_element_def getitem_def Let_def
        emit_defs transit_def except_IndexError_pass_def update_highest_placed_def
        travel_two_def extrude_two_def dry_config_def source_config_def
        robot_at_home_def HOME_POS_def is_robot_joints_ok_def OK_RANGES_def)

section \<open>Awaited commands\<close>

text \<open>
  C8, as the script has it. The awaited commands of an iteration are the joint read and,
  when there is a next element, the transit move after it; the iteration of the last
  element awaits the joint read only. Everything else is sent without waiting: of the
  motion commands, the moves to the entry, extrude and exit frames and the move to
  \<open>RESET_POS\<close>, in this order.
\<close>

theorem awaited_commands_of_cycle:
  assumes "i < length travel_frames" and "i < length extrude_frames"
  shows "\<exists>h. update_highest_placed (extrude_frames ! i) hp = Some h
    \<and> filter is_awaited (cycle_events cfg extrude_frames travel_frames robot n i hp) =
        Send_and_wait GetJoints #
        (if i + 1 < length travel_frames
         then [Send_and_wait (MoveToFrame
                 (safe_midpoint_frame (Z_HOP cfg) (travel_frames ! i) (travel_frames ! (i + 1)) h)
                 TRAVEL_SPEED Z5 JOINT)]
         else [])
    \<and> filter is_motion (cycle_events cfg extrude_frames travel_frames robot n i hp) =
        [Send (MoveToFrame (travel_frames ! i) TRAVEL_SPEED Z1 JOINT),
         Send (MoveToFrame (extrude_frames ! i) PRINT_SPEED FINE LINEAR),
         Send (MoveToFrame (travel_frames ! i) TRAVEL_SPEED Z1 LINEAR)] @
        (if snd (is_robot_joints_ok (robot i)) then []
         else [Send (MoveToJoints RESET_POS EXTERNAL_AXES_DUMMY TRAVEL_SPEED Z10)]) @
        (if i + 1 < length travel_frames
         then [Send_and_wait (MoveToFrame
                 (safe_midpoint_frame (Z_HOP cfg) (travel_frames ! i) (travel_frames ! (i + 1)) h)
                 TRAVEL_SPEED Z5 JOINT)]
         else [])"
proof -
  obtain h where h: "update_highest_placed (extrude_frames ! i) hp = Some h"
    using update_highest_placed_Some by blast
  note ev = cycle_events_eq [OF assms h, of cfg robot n]
  have a: "filter is_awaited (cycle_events cfg extrude_frames travel_frames robot n i hp) =
        Send_and_wait GetJoints #
        (if i + 1 < length travel_frames
         then [Send_and_wait (MoveToFrame
                 (safe_midpoint_frame (Z_HOP cfg) (travel_frames ! i) (travel_frames ! (i + 1)) h)
                 TRAVEL_SPEED Z5 JOINT)]
         else [])"
    unfolding ev by (simp add: filter_awaited_prints)
  have b: "filter is_motion (cycle_events cfg extrude_frames travel_frames robot n i hp) =
        [Send (MoveToFrame (travel_frames ! i) TRAVEL_SPEED Z1 JOINT),
         Send (MoveToFrame (extrude_frames ! i) PRINT_SPEED FINE LINEAR),
         Send (MoveToFrame (travel_frames ! i) TRAVEL_SPEED Z1 LINEAR)] @
        (if snd (is_robot_joints_ok (robot i)) then []
         else [Send (MoveToJoints RESET_POS EXTERNAL_AXES_DUMMY TRAVEL_SPEED Z10)]) @
        (if i + 1 < length travel_frames
         then [Send_and_wait (MoveToFrame
                 (safe_midpoint_frame (Z_HOP cfg) (travel_frames ! i) (travel_frames ! (i + 1)) h)
                 TRAVEL_SPEED Z5 JOINT)]
         else [])"
    unfolding ev by (simp add: filter_motion_prints)
  from h a b show ?thesis by blast
qed

text \<open>
  The first of two elements.
\<close>

theorem awaited_commands_of_cycle_witness:
  "0 < length travel_two \<and> 0 < length extrude_two
   \<and> filter is_awaited (cycle_events source_config extrude_two travel_two robot_at_home 2 0 None) =
      [Send_and_wait GetJoints,
       Send_and_wait (MoveToFrame
         (safe_midpoint_frame 30 (frame_at 0 0 50) (frame_at 10 20 50) (frame_at 0 0 10))
         TRAVEL_SPEED Z5 JOINT)]"
  using awaited_commands_of_cycle [of 0 travel_two extrude_two None source_config robot_at_home 2]
  by (simp add: travel_two_def extrude_two_def source_config_def update_highest_placed_def)

text \<open>
  The claim as stated fails here: the iteration of the last element awaits one command, not two.
\<close>

theorem last_cycle_awaits_one_command:
  "length (filter is_awaited
      (cycle_events source_config extrude_two travel_two robot_at_home 2 1
         (Some (frame_at 0 0 10)))) = 1"
proof -
  have "update_highest_placed (extrude_two ! 1) (Some (frame_at 0 0 10)) = Some (extrude_two ! 1)"
    by (simp add: update_highest_placed_def extrude_two_def frame_at_def)
  from cycle_events_eq [OF _ _ this, of travel_two source_config robot_at_home 2]
  show ?thesis
    by (simp add: travel_two_def extrude_two_def filter_awaited_prints)
qed

section \<open>Entry and exit frame\<close>

text \<open>
  C9. An iteration goes to the travel frame of its index, to the extrude frame, and back to
  the same travel frame: entry and exit are one frame. The transit frame is computed from
  it and from the travel frame of the next index.
\<close>

theorem travel_frame_is_entry_and_exit:
  assumes "i < length travel_frames" and "i < length extrude_frames"
  shows "\<exists>h. update_highest_placed (extrude_frames ! i) hp = Some h
    \<and> hd (cycle_events cfg extrude_frames travel_frames robot n i hp) =
        Send (MoveToFrame (travel_frames ! i) TRAVEL_SPEED Z1 JOINT)
    \<and> Send (MoveToFrame (travel_frames ! i) TRAVEL_SPEED Z1 LINEAR)
        \<in> set (cycle_events cfg extrude_frames travel_frames robot n i hp)
    \<and> move_targets (cycle_events cfg extrude_frames travel_frames robot n i hp) =
        [travel_frames ! i, extrude_frames ! i, travel_frames ! i] @
        (if i + 1 < length travel_frames
         then [safe_midpoint_frame (Z_HOP cfg) (travel_frames ! i) (travel_frames ! (i + 1)) h]
         else [])"
proof -
  obtain h where h: "update_highest_placed (extrude_frames ! i) hp = Some h"
    using update_highest_placed_Some by blast
  note ev = cycle_events_eq [OF assms h, of cfg robot n]
  have a: "hd (cycle_events cfg extrude_frames travel_frames robot n i hp) =
        Send (MoveToFrame (travel_frames ! i) TRAVEL_SPEED Z1 JOINT)"
    unfolding ev by simp
  have b: "Send (MoveToFrame (travel_frames ! i) TRAVEL_SPEED Z1 LINEAR)
        \<in> set (cycle_events cfg extrude_frames travel_frames robot n i hp)"
    unfolding ev by simp
  have c: "move_targets (cycle_events cfg extrude_frames travel_frames robot n i hp) =
        [travel_frames ! i, extrude_frames ! i, travel_frames ! i] @
        (if i + 1 < length travel_frames
         then [safe_midpoint_frame (Z_HOP cfg) (travel_frames ! i) (travel_frames ! (i + 1)) h]
         else [])"
    unfolding ev move_targets_def by (simp add: move_targets_prints)
  from h a b c show ?thesis by blast
qed

text \<open>
  The first of two elements: the frames moved to, in order.
\<close>

theorem travel_frame_is_entry_and_exit_witness:
  "0 < length travel_two \<and> 0 < length extrude_two
   \<and> move_targets (cycle_events source_config extrude_two travel_two robot_at_home 2 0 None) =
      [frame_at 0 0 50, frame_at 0 0 10, frame_at 0 0 50,
       safe_midpoint_frame 30 (frame_at 0 0 50) (frame_at 10 20 50) (frame_at 0 0 10)]"
  using travel_frame_is_entry_and_exit [of 0 travel_two extrude_two None source_config robot_at_home 2]
  by (simp add: travel_two_def extrude_two_def source_config_def update_highest_placed_def)

section \<open>The loop\<close>

lemma for_loop_append:
  "for_loop body (xs @ ys) st =
     (case for_loop body xs st of Inl err \<Rightarrow> Inl err | Inr st' \<Rightarrow> for_loop body ys st')"
  by (induction xs arbitrary: st) (simp_all split: sum.split)

lemma for_loop_invariant:
  assumes "P st" and "\<And>i s. i \<in> set xs \<Longrightarrow> P s \<Longrightarrow> \<exists>s'. body i s = Inr s' \<and> P s'"
  shows "\<exists>st'. for_loop body xs st = Inr st' \<and> P st'"
  using assms
proof (induction xs arbitrary: st)
  case Nil
  then show ?case by simp
next
  case (Cons i xs)
  from Cons.prems obtain s' where s': "body i st = Inr s'" "P s'"
    by (meson list.set_intros(1))
  from Cons.IH [OF s'(2)] Cons.prems(2) obtain st' where "for_loop body xs s' = Inr st'" "P st'"
    by (meson list.set_intros(2))
  with s' show ?case by simp
qed

lemma per_element_highest:
  assumes "i < length travel_frames" and "i < length extrude_frames"
  shows "\<exists>st'. per_element cfg extrude_frames travel_frames robot n i st = Inr st'
    \<and> highest_placed st' = update_highest_placed (extrude_frames ! i) (highest_placed st)"
  unfolding per_element_cycle [OF assms] by simp

lemma loop_running_maximum:
  assumes "k \<le> length travel_frames" and "k \<le> length extrude_frames" and "s < k"
    and "highest_placed st = None"
  shows "\<exists>st' h. for_loop (per_element cfg extrude_frames travel_frames robot n) [s..<k] st = Inr st'
    \<and> highest_placed st' = Some h
    \<and> pz (point h) = Max ((\<lambda>i. pz (point (extrude_frames ! i))) ` {s..<k})"
  using assms(3,1,2)
proof (induction k)
  case 0
  then show ?case by simp
next
  case (Suc k)
  let ?body = "per_element cfg extrude_frames travel_frames robot n"
  let ?z = "\<lambda>i. pz (point (extrude_frames ! i))"
  from Suc.prems have k: "k < length travel_frames" "k < length extrude_frames" by simp_all
  show ?case
  proof (cases "s = k")
    case True
    from per_element_highest [OF k, of cfg robot n st] assms(4) True
    show ?thesis by (auto simp: update_highest_placed_def)
  next
    case False
    with Suc.prems have sk: "s < k" by simp
    from Suc.IH [OF sk] k obtain st1 h1 where st1: "for_loop ?body [s..<k] st = Inr st1"
      "highest_placed st1 = Some h1" "pz (point h1) = Max (?z ` {s..<k})"
      by auto
    from per_element_highest [OF k, of cfg robot n st1] obtain st2 where st2:
      "?body k st1 = Inr st2"
      "highest_placed st2 = update_highest_placed (extrude_frames ! k) (Some h1)"
      using st1(2) by auto
    have upt: "[s..<Suc k] = [s..<k] @ [k]"
      using sk by simp
    have loop: "for_loop ?body [s..<Suc k] st = Inr st2"
      unfolding upt for_loop_append using st1(1) st2(1) by simp
    have set: "{s..<Suc k} = insert k {s..<k}"
      using sk by auto
    have ne: "?z ` {s..<k} \<noteq> {}" using sk by simp
    have mx: "Max (?z ` {s..<Suc k}) = max (?z k) (Max (?z ` {s..<k}))"
      unfolding set image_insert using ne by (simp add: Max_insert)
    show ?thesis
    proof (cases "pz (point h1) < ?z k")
      case True
      with st2(2) have "highest_placed st2 = Some (extrude_frames ! k)"
        by (simp add: update_highest_placed_def)
      moreover from True st1(3) have "?z k = Max (?z ` {s..<Suc k})"
        unfolding mx by simp
      ultimately show ?thesis using loop by simp
    next
      case False
      with st2(2) have "highest_placed st2 = Some h1"
        by (simp add: update_highest_placed_def)
      moreover from False st1(3) have "pz (point h1) = Max (?z ` {s..<Suc k})"
        unfolding mx by simp
      ultimately show ?thesis using loop by simp
    qed
  qed
qed

section \<open>Before and after the loop\<close>

lemma pre_run_eq:
  "pre_run cfg =
     \<lparr>trace =
        [Ros_run, Print (Str ''Connected.''),
         Send (SetAcceleration 100 100), Send (SetMaxSpeed 100 250),
         Send (SetDigital STEPPER_FORWARD_DO 0), Send (SetDigital STEPPER_BACKWARDS_DO 0),
         Send (SetDigital PRESSURE_DO 0), Send (SetTool TOOL), Send (SetWorkObject WOBJ),
         Print (Str ''Tool, Wobj, Acc and MaxSpeed sent to robot'')] @
        (if DRY_RUN cfg then [] else [Send (SetDigital PRESSURE_DO 1)]) @
        [Send (MoveToJoints HOME_POS EXTERNAL_AXES_DUMMY TRAVEL_SPEED FINE)],
      highest_placed = None\<rparr>"
  by (simp add: pre_run_def Let_def emit_defs)

lemma post_run_eq:
  "post_run st =
     st\<lparr>trace := trace st @
        [Send (MoveToJoints HOME_POS EXTERNAL_AXES_DUMMY TRAVEL_SPEED FINE),
         Send (SetDigital PRESSURE_DO 0), Ros_close, Ros_terminate]\<rparr>"
  by (simp add: post_run_def emit_defs)

lemma run_mismatch:
  assumes "length extrude_frames \<noteq> length travel_frames"
  shows "run cfg extrude_frames travel_frames robot =
    Inl (Exception ''Lengths of extrude_frames and travel_frames do not match'', pre_run cfg)"
  using assms by (simp add: run_def Let_def)

lemma loop_total:
  assumes "k \<le> length travel_frames" and "k \<le> length extrude_frames"
  shows "\<exists>st'. for_loop (per_element cfg extrude_frames travel_frames robot n) [s..<k] st = Inr st'"
proof -
  have "\<exists>st'. for_loop (per_element cfg extrude_frames travel_frames robot n) [s..<k] st = Inr st'
      \<and> True"
  proof (rule for_loop_invariant)
    show True ..
    fix i s'
    assume "i \<in> set [s..<k]"
    with assms have "i < length travel_frames" "i < length extrude_frames" by simp_all
    from per_element_cycle [OF this]
    show "\<exists>s''. per_element cfg extrude_frames travel_frames robot n i s' = Inr s'' \<and> True"
      by simp
  qed
  then show ?thesis by simp
qed

lemma run_match:
  assumes "length extrude_frames = length travel_frames"
  shows "\<exists>st'. for_loop
            (per_element cfg extrude_frames travel_frames robot (length extrude_frames))
            [START_FROM cfg..<length extrude_frames] (pre_run cfg) = Inr st'
    \<and> run cfg extrude_frames travel_frames robot = Inr (post_run st')"
proof -
  have "length extrude_frames \<le> length travel_frames" "length extrude_frames \<le> length extrude_frames"
    using assms by simp_all
  from loop_total [OF this] obtain st' where "for_loop
            (per_element cfg extrude_frames travel_frames robot (length extrude_frames))
            [START_FROM cfg..<length extrude_frames] (pre_run cfg) = Inr st'"
    by blast
  with assms show ?thesis by (simp add: run_def Let_def)
qed

section \<open>Digital outputs\<close>

lemma signal_value_append:
  "signal_value d (xs @ ys) = fold (set_signal d) ys (signal_value d xs)"
  by (simp add: signal_value_def)

lemma fold_set_signal_prints: "fold (set_signal d) (map Print msgs) v = v"
  by (induction msgs) simp_all

lemma cycle_signals:
  assumes "i < length travel_frames" and "i < length extrude_frames"
  shows "fold (set_signal STEPPER_FORWARD_DO)
           (cycle_events cfg extrude_frames travel_frames robot n i hp) v = Some 0"
    and "fold (set_signal STEPPER_BACKWARDS_DO)
           (cycle_events cfg extrude_frames travel_frames robot n i hp) v = Some 0"
    and "fold (set_signal PRESSURE_DO)
           (cycle_events cfg extrude_frames travel_frames robot n i hp) v = v"
proof -
  obtain h where h: "update_highest_placed (extrude_frames ! i) hp = Some h"
    using update_highest_placed_Some by blast
  note ev = cycle_events_eq [OF assms h, of cfg robot n]
  show "fold (set_signal STEPPER_FORWARD_DO)
           (cycle_events cfg extrude_frames travel_frames robot n i hp) v = Some 0"
    unfolding ev
    by (simp add: fold_set_signal_prints STEPPER_FORWARD_DO_def STEPPER_BACKWARDS_DO_def)
  show "fold (set_signal STEPPER_BACKWARDS_DO)
           (cycle_events cfg extrude_frames travel_frames robot n i hp) v = Some 0"
    unfolding ev
    by (simp add: fold_set_signal_prints STEPPER_FORWARD_DO_def STEPPER_BACKWARDS_DO_def)
  show "fold (set_signal PRESSURE_DO)
           (cycle_events cfg extrude_frames travel_frames robot n i hp) v = v"
    unfolding ev
    by (simp add: fold_set_signal_prints STEPPER_FORWARD_DO_def STEPPER_BACKWARDS_DO_def
        PRESSURE_DO_def)
qed

lemma pre_run_signals:
  "signal_value STEPPER_FORWARD_DO (trace (pre_run cfg)) = Some 0"
  "signal_value STEPPER_BACKWARDS_DO (trace (pre_run cfg)) = Some 0"
  "signal_value PRESSURE_DO (trace (pre_run cfg)) = Some (if DRY_RUN cfg then 0 else 1)"
  unfolding pre_run_eq signal_value_def
  by (simp_all add: STEPPER_FORWARD_DO_def STEPPER_BACKWARDS_DO_def PRESSURE_DO_def)

lemma loop_signals:
  assumes "k \<le> length travel_frames" and "k \<le> length extrude_frames"
    and "signal_value STEPPER_FORWARD_DO (trace st) = Some 0"
    and "signal_value STEPPER_BACKWARDS_DO (trace st) = Some 0"
  shows "\<exists>st'. for_loop (per_element cfg extrude_frames travel_frames robot n) [s..<k] st = Inr st'
    \<and> (signal_value STEPPER_FORWARD_DO (trace st') = Some 0
       \<and> signal_value STEPPER_BACKWARDS_DO (trace st') = Some 0)"
proof (rule for_loop_invariant)
  show "signal_value STEPPER_FORWARD_DO (trace st) = Some 0
      \<and> signal_value STEPPER_BACKWARDS_DO (trace st) = Some 0"
    using assms(3,4) by simp
  fix i s'
  assume "i \<in> set [s..<k]"
  with assms have i: "i < length travel_frames" "i < length extrude_frames" by simp_all
  show "\<exists>s''. per_element cfg extrude_frames travel_frames robot n i s' = Inr s''
      \<and> (signal_value STEPPER_FORWARD_DO (trace s'') = Some 0
         \<and> signal_value STEPPER_BACKWARDS_DO (trace s'') = Some 0)"
    unfolding per_element_cycle [OF i]
    by (simp add: signal_value_append cycle_signals [OF i])
qed

section \<open>Unequal lengths\<close>

text \<open>
  C1, as the script has it. With lists of unequal lengths the script raises its exception
  after everything that precedes the loading of the frames has been sent, the move to
  \<open>HOME_POS\<close> included: that move is the only motion command sent, and no
  \<^verbatim>\<open>MoveToFrame\<close> is.
\<close>

theorem length_mismatch_raises_after_homing:
  assumes "length extrude_frames \<noteq> length travel_frames"
  shows "raised (run cfg extrude_frames travel_frames robot) =
      Some (Exception ''Lengths of extrude_frames and travel_frames do not match'')
    \<and> events (run cfg extrude_frames travel_frames robot) =
        [Ros_run, Print (Str ''Connected.''),
         Send (SetAcceleration 100 100), Send (SetMaxSpeed 100 250),
         Send (SetDigital STEPPER_FORWARD_DO 0), Send (SetDigital STEPPER_BACKWARDS_DO 0),
         Send (SetDigital PRESSURE_DO 0), Send (SetTool TOOL), Send (SetWorkObject WOBJ),
         Print (Str ''Tool, Wobj, Acc and MaxSpeed sent to robot'')] @
        (if DRY_RUN cfg then [] else [Send (SetDigital PRESSURE_DO 1)]) @
        [Send (MoveToJoints HOME_POS EXTERNAL_AXES_DUMMY TRAVEL_SPEED FINE)]
    \<and> filter is_motion (events (run cfg extrude_frames travel_frames robot)) =
        [Send (MoveToJoints HOME_POS EXTERNAL_AXES_DUMMY TRAVEL_SPEED FINE)]
    \<and> move_targets (events (run cfg extrude_frames travel_frames robot)) = []"
  unfolding run_mismatch [OF assms] raised_def events_def pre_run_eq move_targets_def
  by simp

text \<open>
  No extrude frame against one travel frame, in a dry run.
\<close>

theorem length_mismatch_raises_after_homing_witness:
  "length ([] :: cg_frame list) \<noteq> length [frame_at 0 0 0]
   \<and> raised (run dry_config [] [frame_at 0 0 0] robot_at_home) =
      Some (Exception ''Lengths of extrude_frames and travel_frames do not match'')
   \<and> move_targets (events (run dry_config [] [frame_at 0 0 0] robot_at_home)) = []"
proof -
  have ne: "length ([] :: cg_frame list) \<noteq> length [frame_at 0 0 0]" by simp
  from length_mismatch_raises_after_homing [OF ne, of dry_config robot_at_home] ne
  show ?thesis by blast
qed

text \<open>
  The claim as stated fails here: the move to \<open>HOME_POS\<close> is sent before the lengths are compared.
\<close>

theorem homing_move_precedes_length_check:
  "raised (run source_config [] [frame_at 0 0 0] robot_at_home) =
      Some (Exception ''Lengths of extrude_frames and travel_frames do not match'')
   \<and> filter is_motion (events (run source_config [] [frame_at 0 0 0] robot_at_home)) =
      [Send (MoveToJoints HOME_POS EXTERNAL_AXES_DUMMY TRAVEL_SPEED FINE)]"
  by (simp add: run_def Let_def raised_def events_def pre_run_def emit_defs source_config_def)

section \<open>The highest frame placed\<close>

text \<open>
  C4. The loop starts with no highest frame. After the indices from \<open>s\<close> up to \<open>k\<close>
  the highest frame's z is the maximum of the extrude frames' z over those indices. One
  iteration sets the highest frame to its extrude frame when there was none, replaces it
  only by an extrude frame strictly higher, and never lowers its z.
\<close>

theorem highest_placed_running_maximum:
  assumes "length extrude_frames = length travel_frames"
  shows "highest_placed (pre_run cfg) = None
    \<and> (s < k \<and> k \<le> length extrude_frames \<and> highest_placed st = None \<longrightarrow>
        (\<exists>st' h. for_loop (per_element cfg extrude_frames travel_frames robot n) [s..<k] st = Inr st'
          \<and> highest_placed st' = Some h
          \<and> pz (point h) = Max ((\<lambda>i. pz (point (extrude_frames ! i))) ` {s..<k})))
    \<and> (i < length extrude_frames \<longrightarrow>
        (\<exists>st'. per_element cfg extrude_frames travel_frames robot n i st = Inr st'
          \<and> highest_placed st' =
              (case highest_placed st of
                 None \<Rightarrow> Some (extrude_frames ! i)
               | Some h \<Rightarrow>
                   if pz (point h) < pz (point (extrude_frames ! i))
                   then Some (extrude_frames ! i) else Some h)))
    \<and> (i < length extrude_frames \<and> highest_placed st = Some h0 \<longrightarrow>
        (\<exists>st' h'. per_element cfg extrude_frames travel_frames robot n i st = Inr st'
          \<and> highest_placed st' = Some h' \<and> pz (point h0) \<le> pz (point h')))"
proof (intro conjI impI)
  show "highest_placed (pre_run cfg) = None"
    by (simp add: pre_run_eq)
next
  assume a: "s < k \<and> k \<le> length extrude_frames \<and> highest_placed st = None"
  with assms have "k \<le> length travel_frames" "k \<le> length extrude_frames" "s < k"
    "highest_placed st = None"
    by simp_all
  from loop_running_maximum [OF this]
  show "\<exists>st' h. for_loop (per_element cfg extrude_frames travel_frames robot n) [s..<k] st = Inr st'
          \<and> highest_placed st' = Some h
          \<and> pz (point h) = Max ((\<lambda>i. pz (point (extrude_frames ! i))) ` {s..<k})" .
next
  assume "i < length extrude_frames"
  with assms have i: "i < length travel_frames" "i < length extrude_frames" by simp_all
  from per_element_highest [OF i, of cfg robot n st]
  show "\<exists>st'. per_element cfg extrude_frames travel_frames robot n i st = Inr st'
          \<and> highest_placed st' =
              (case highest_placed st of
                 None \<Rightarrow> Some (extrude_frames ! i)
               | Some h \<Rightarrow>
                   if pz (point h) < pz (point (extrude_frames ! i))
                   then Some (extrude_frames ! i) else Some h)"
    by (simp add: update_highest_placed_def)
next
  assume a: "i < length extrude_frames \<and> highest_placed st = Some h0"
  with assms have i: "i < length travel_frames" "i < length extrude_frames" by simp_all
  from per_element_highest [OF i, of cfg robot n st] a
  show "\<exists>st' h'. per_element cfg extrude_frames travel_frames robot n i st = Inr st'
          \<and> highest_placed st' = Some h' \<and> pz (point h0) \<le> pz (point h')"
    by (auto simp: update_highest_placed_def)
qed

text \<open>
  Three elements placed at z = 10, 25 and 5.
\<close>

theorem highest_placed_running_maximum_witness:
  "length extrude_three = length travel_three
   \<and> (0::nat) < 3 \<and> 3 \<le> length extrude_three \<and> highest_placed (pre_run from_start) = None
   \<and> (\<exists>st' h. for_loop (per_element from_start extrude_three travel_three robot_at_home 3)
                  [0..<3] (pre_run from_start) = Inr st'
          \<and> highest_placed st' = Some h \<and> pz (point h) = 25)"
proof -
  have len: "length extrude_three = length travel_three"
    by (simp add: extrude_three_def travel_three_def)
  have hyps: "(0::nat) < 3 \<and> 3 \<le> length extrude_three
      \<and> highest_placed (pre_run from_start) = None"
    by (simp add: extrude_three_def pre_run_eq)
  have set: "{0..<3::nat} = {0, 1, 2}" by auto
  have "Max ((\<lambda>i. pz (point (extrude_three ! i))) ` {0..<3}) = 25"
    unfolding set by (simp add: extrude_three_def frame_at_def)
  with highest_placed_running_maximum
    [OF len, of from_start 0 3 "pre_run from_start" robot_at_home 3] hyps len
  show ?thesis by simp
qed

section \<open>Signals when the script stops\<close>

lemma run_signals_completed:
  assumes "length extrude_frames = length travel_frames"
  shows "raised (run cfg extrude_frames travel_frames robot) = None"
    and "signal_value STEPPER_FORWARD_DO (events (run cfg extrude_frames travel_frames robot)) = Some 0"
    and "signal_value STEPPER_BACKWARDS_DO (events (run cfg extrude_frames travel_frames robot)) = Some 0"
    and "signal_value PRESSURE_DO (events (run cfg extrude_frames travel_frames robot)) = Some 0"
proof -
  let ?n = "length extrude_frames"
  have le: "?n \<le> length travel_frames" "?n \<le> length extrude_frames"
    using assms by simp_all
  from loop_signals [OF le pre_run_signals(1,2), of cfg robot ?n "START_FROM cfg" cfg]
  obtain st' where st':
    "for_loop (per_element cfg extrude_frames travel_frames robot ?n) [START_FROM cfg..<?n]
       (pre_run cfg) = Inr st'"
    "signal_value STEPPER_FORWARD_DO (trace st') = Some 0"
    "signal_value STEPPER_BACKWARDS_DO (trace st') = Some 0"
    by blast
  from assms st'(1) have r: "run cfg extrude_frames travel_frames robot = Inr (post_run st')"
    by (simp add: run_def Let_def)
  show "raised (run cfg extrude_frames travel_frames robot) = None"
    unfolding r by (simp add: raised_def)
  show "signal_value STEPPER_FORWARD_DO (events (run cfg extrude_frames travel_frames robot)) = Some 0"
    unfolding r events_def post_run_eq using st'(2)
    by (simp add: signal_value_append STEPPER_FORWARD_DO_def PRESSURE_DO_def)
  show "signal_value STEPPER_BACKWARDS_DO (events (run cfg extrude_frames travel_frames robot)) = Some 0"
    unfolding r events_def post_run_eq using st'(3)
    by (simp add: signal_value_append STEPPER_BACKWARDS_DO_def PRESSURE_DO_def)
  show "signal_value PRESSURE_DO (events (run cfg extrude_frames travel_frames robot)) = Some 0"
    unfolding r events_def post_run_eq
    by (simp add: signal_value_append)
qed

text \<open>
  C6, as the script has it. When the script raises for unequal lengths nothing more is
  sent: the two stepper signals stand at 0, where the start of the script put them, and the
  pressure signal stays at 1 unless the run is a dry run. When the lengths are equal the
  script ends with the three signals at 0.
\<close>

theorem signals_at_exit:
  "(length extrude_frames \<noteq> length travel_frames \<longrightarrow>
      raised (run cfg extrude_frames travel_frames robot) =
        Some (Exception ''Lengths of extrude_frames and travel_frames do not match'')
      \<and> signal_value STEPPER_FORWARD_DO (events (run cfg extrude_frames travel_frames robot)) = Some 0
      \<and> signal_value STEPPER_BACKWARDS_DO (events (run cfg extrude_frames travel_frames robot)) = Some 0
      \<and> signal_value PRESSURE_DO (events (run cfg extrude_frames travel_frames robot)) =
          Some (if DRY_RUN cfg then 0 else 1))
   \<and> (length extrude_frames = length travel_frames \<longrightarrow>
      raised (run cfg extrude_frames travel_frames robot) = None
      \<and> signal_value STEPPER_FORWARD_DO (events (run cfg extrude_frames travel_frames robot)) = Some 0
      \<and> signal_value STEPPER_BACKWARDS_DO (events (run cfg extrude_frames travel_frames robot)) = Some 0
      \<and> signal_value PRESSURE_DO (events (run cfg extrude_frames travel_frames robot)) = Some 0)"
proof (intro conjI impI)
  assume ne: "length extrude_frames \<noteq> length travel_frames"
  note r = run_mismatch [OF ne, of cfg robot]
  show "raised (run cfg extrude_frames travel_frames robot) =
        Some (Exception ''Lengths of extrude_frames and travel_frames do not match'')"
    unfolding r by (simp add: raised_def)
  show "signal_value STEPPER_FORWARD_DO (events (run cfg extrude_frames travel_frames robot)) = Some 0"
    unfolding r events_def by (simp add: pre_run_signals)
  show "signal_value STEPPER_BACKWARDS_DO (events (run cfg extrude_frames travel_frames robot)) = Some 0"
    unfolding r events_def by (simp add: pre_run_signals)
  show "signal_value PRESSURE_DO (events (run cfg extrude_frames travel_frames robot)) =
          Some (if DRY_RUN cfg then 0 else 1)"
    unfolding r events_def by (simp add: pre_run_signals)
next
  assume eq: "length extrude_frames = length travel_frames"
  show "raised (run cfg extrude_frames travel_frames robot) = None"
    by (rule run_signals_completed [OF eq])
  show "signal_value STEPPER_FORWARD_DO (events (run cfg extrude_frames travel_frames robot)) = Some 0"
    by (rule run_signals_completed [OF eq])
  show "signal_value STEPPER_BACKWARDS_DO (events (run cfg extrude_frames travel_frames robot)) = Some 0"
    by (rule run_signals_completed [OF eq])
  show "signal_value PRESSURE_DO (events (run cfg extrude_frames travel_frames robot)) = Some 0"
    by (rule run_signals_completed [OF eq])
qed

text \<open>
  Three extrude frames against two travel frames, then against three.
\<close>

theorem signals_at_exit_witness:
  "length extrude_three \<noteq> length travel_two
   \<and> signal_value PRESSURE_DO (events (run from_start extrude_three travel_two robot_at_home)) = Some 1
   \<and> signal_value STEPPER_BACKWARDS_DO (events (run from_start extrude_three travel_two robot_at_home)) = Some 0
   \<and> length extrude_three = length travel_three
   \<and> raised (run from_start extrude_three travel_three robot_at_home) = None
   \<and> signal_value PRESSURE_DO (events (run from_start extrude_three travel_three robot_at_home)) = Some 0"
proof -
  have ne: "length extrude_three \<noteq> length travel_two"
    by (simp add: extrude_three_def travel_two_def)
  have eq: "length extrude_three = length travel_three"
    by (simp add: extrude_three_def travel_three_def)
  have live: "\<not> DRY_RUN from_start"
    by (simp add: from_start_def source_config_def)
  from signals_at_exit [of extrude_three travel_two from_start robot_at_home]
    signals_at_exit [of extrude_three travel_three from_start robot_at_home] ne eq live
  show ?thesis by simp
qed

text \<open>
  The claim as stated fails here: the script raises with the pressure signal at 1.
\<close>

theorem pressure_left_asserted_on_mismatch:
  "raised (run source_config [] [frame_at 0 0 0] robot_at_home) =
      Some (Exception ''Lengths of extrude_frames and travel_frames do not match'')
   \<and> signal_value PRESSURE_DO (events (run source_config [] [frame_at 0 0 0] robot_at_home)) = Some 1"
  by (simp add: run_def Let_def raised_def events_def pre_run_def emit_defs source_config_def
      signal_value_def PRESSURE_DO_def STEPPER_FORWARD_DO_def STEPPER_BACKWARDS_DO_def)

section \<open>The end of the sequence\<close>

lemma transit_handled:
  "except_IndexError_pass (transit cfg travel_frames i frame st) =
     transit_bounds_check cfg travel_frames i frame st"
  by (simp add: except_IndexError_pass_def transit_def transit_bounds_check_def getitem_def
      split: option.split)

lemma run_ends_with_last_cycle:
  assumes "length extrude_frames = length travel_frames"
    and "START_FROM cfg < length extrude_frames"
  shows "\<exists>st_prev.
      for_loop (per_element cfg extrude_frames travel_frames robot (length extrude_frames))
        [START_FROM cfg..<length extrude_frames - 1] (pre_run cfg) = Inr st_prev
    \<and> events (run cfg extrude_frames travel_frames robot) =
        trace st_prev @
        cycle_events cfg extrude_frames travel_frames robot (length extrude_frames)
          (length extrude_frames - 1) (highest_placed st_prev) @
        [Send (MoveToJoints HOME_POS EXTERNAL_AXES_DUMMY TRAVEL_SPEED FINE),
         Send (SetDigital PRESSURE_DO 0), Ros_close, Ros_terminate]"
proof -
  let ?n = "length extrude_frames"
  let ?body = "per_element cfg extrude_frames travel_frames robot ?n"
  have le: "?n - 1 \<le> length travel_frames" "?n - 1 \<le> length extrude_frames"
    using assms by simp_all
  from loop_total [OF le] obtain st_prev where
    prev: "for_loop ?body [START_FROM cfg..<?n - 1] (pre_run cfg) = Inr st_prev"
    by blast
  have last: "?n - 1 < length travel_frames" "?n - 1 < length extrude_frames"
    using assms by simp_all
  note step = per_element_cycle [OF last, of cfg robot ?n st_prev]
  have "[START_FROM cfg..<?n] = [START_FROM cfg..<?n - 1] @ [?n - 1]"
    using assms(2) by (metis Suc_diff_1 less_Suc_eq_le less_nat_zero_code not_gr_zero upt_Suc_append)
  then have "for_loop ?body [START_FROM cfg..<?n] (pre_run cfg) =
      Inr \<lparr>trace = trace st_prev @
              cycle_events cfg extrude_frames travel_frames robot ?n (?n - 1) (highest_placed st_prev),
           highest_placed = update_highest_placed (extrude_frames ! (?n - 1)) (highest_placed st_prev)\<rparr>"
    using prev step by (simp add: for_loop_append)
  with assms(1) have "events (run cfg extrude_frames travel_frames robot) =
        trace st_prev @
        cycle_events cfg extrude_frames travel_frames robot ?n (?n - 1) (highest_placed st_prev) @
        [Send (MoveToJoints HOME_POS EXTERNAL_AXES_DUMMY TRAVEL_SPEED FINE),
         Send (SetDigital PRESSURE_DO 0), Ros_close, Ros_terminate]"
    by (simp add: run_def Let_def events_def post_run_eq)
  with prev show ?thesis by blast
qed

text \<open>
  C7. The \<^verbatim>\<open>try\<close> with its handler does what the bounds check \<^verbatim>\<open>i + 1 < n\<close>
  does, in every state. The handler lets every exception but \<^verbatim>\<open>IndexError\<close>
  through. At the last index the read past the end raises, the iteration awaits the joint
  read only and moves to no transit frame; the script does not raise, and the events of
  that iteration are followed by the move to \<open>HOME_POS\<close> and the end of the script.
\<close>

theorem end_of_sequence_is_bounds_check:
  "except_IndexError_pass (transit cfg travel_frames i frame st) =
     transit_bounds_check cfg travel_frames i frame st
   \<and> (e \<noteq> IndexError \<longrightarrow> except_IndexError_pass (Inl (e, st)) = Inl (e, st))
   \<and> (i + 1 = length travel_frames \<and> i < length extrude_frames \<longrightarrow>
        transit cfg travel_frames i frame st = Inl (IndexError, st)
      \<and> filter is_awaited (cycle_events cfg extrude_frames travel_frames robot n i hp) =
          [Send_and_wait GetJoints]
      \<and> move_targets (cycle_events cfg extrude_frames travel_frames robot n i hp) =
          [travel_frames ! i, extrude_frames ! i, travel_frames ! i])
   \<and> (length extrude_frames = length travel_frames \<and> START_FROM cfg < length extrude_frames \<longrightarrow>
        raised (run cfg extrude_frames travel_frames robot) = None
      \<and> (\<exists>st_prev.
            for_loop (per_element cfg extrude_frames travel_frames robot (length extrude_frames))
              [START_FROM cfg..<length extrude_frames - 1] (pre_run cfg) = Inr st_prev
          \<and> events (run cfg extrude_frames travel_frames robot) =
              trace st_prev @
              cycle_events cfg extrude_frames travel_frames robot (length extrude_frames)
                (length extrude_frames - 1) (highest_placed st_prev) @
              [Send (MoveToJoints HOME_POS EXTERNAL_AXES_DUMMY TRAVEL_SPEED FINE),
               Send (SetDigital PRESSURE_DO 0), Ros_close, Ros_terminate]))"
proof (intro conjI impI)
  show "except_IndexError_pass (transit cfg travel_frames i frame st) =
     transit_bounds_check cfg travel_frames i frame st"
    by (rule transit_handled)
next
  assume "e \<noteq> IndexError"
  then show "except_IndexError_pass (Inl (e, st)) = Inl (e, st)"
    by (simp add: except_IndexError_pass_def)
next
  assume a: "i + 1 = length travel_frames \<and> i < length extrude_frames"
  then have i: "i < length travel_frames" "i < length extrude_frames"
    and last: "\<not> i + 1 < length travel_frames"
    by simp_all
  obtain h where h: "update_highest_placed (extrude_frames ! i) hp = Some h"
    using update_highest_placed_Some by blast
  note ev = cycle_events_eq [OF i h, of cfg robot n]
  show "transit cfg travel_frames i frame st = Inl (IndexError, st)"
    by (rule transit_last [OF last])
  show "filter is_awaited (cycle_events cfg extrude_frames travel_frames robot n i hp) =
          [Send_and_wait GetJoints]"
    unfolding ev using last by (simp add: filter_awaited_prints)
  show "move_targets (cycle_events cfg extrude_frames travel_frames robot n i hp) =
          [travel_frames ! i, extrude_frames ! i, travel_frames ! i]"
    unfolding ev move_targets_def using last by (simp add: move_targets_prints)
next
  assume a: "length extrude_frames = length travel_frames \<and> START_FROM cfg < length extrude_frames"
  then have eq: "length extrude_frames = length travel_frames"
    and s: "START_FROM cfg < length extrude_frames"
    by simp_all
  from run_match [OF eq, of cfg robot]
  show "raised (run cfg extrude_frames travel_frames robot) = None"
    by (auto simp: raised_def)
  show "\<exists>st_prev.
            for_loop (per_element cfg extrude_frames travel_frames robot (length extrude_frames))
              [START_FROM cfg..<length extrude_frames - 1] (pre_run cfg) = Inr st_prev
          \<and> events (run cfg extrude_frames travel_frames robot) =
              trace st_prev @
              cycle_events cfg extrude_frames travel_frames robot (length extrude_frames)
                (length extrude_frames - 1) (highest_placed st_prev) @
              [Send (MoveToJoints HOME_POS EXTERNAL_AXES_DUMMY TRAVEL_SPEED FINE),
               Send (SetDigital PRESSURE_DO 0), Ros_close, Ros_terminate]"
    by (rule run_ends_with_last_cycle [OF eq s])
qed

text \<open>
  Three elements, at the last index.
\<close>

theorem end_of_sequence_is_bounds_check_witness:
  "AttributeError \<noteq> IndexError
   \<and> 2 + 1 = length travel_three \<and> 2 < length extrude_three
   \<and> length extrude_three = length travel_three \<and> START_FROM from_start < length extrude_three
   \<and> except_IndexError_pass
        (transit from_start travel_three 2 (frame_at 20 0 50) (pre_run from_start)) =
      Inr (pre_run from_start)
   \<and> except_IndexError_pass (Inl (AttributeError, pre_run from_start)) =
      Inl (AttributeError, pre_run from_start)
   \<and> move_targets (cycle_events from_start extrude_three travel_three robot_at_home 3 2 None) =
      [frame_at 20 0 50, frame_at 20 0 5, frame_at 20 0 50]
   \<and> raised (run from_start extrude_three travel_three robot_at_home) = None"
proof -
  have hyps: "AttributeError \<noteq> IndexError" "2 + 1 = length travel_three"
    "2 < length extrude_three" "length extrude_three = length travel_three"
    "START_FROM from_start < length extrude_three"
    by (simp_all add: travel_three_def extrude_three_def from_start_def)
  have vals: "travel_three ! 2 = frame_at 20 0 50" "extrude_three ! 2 = frame_at 20 0 5"
    by (simp_all add: travel_three_def extrude_three_def)
  have check: "transit_bounds_check from_start travel_three 2 (frame_at 20 0 50)
      (pre_run from_start) = Inr (pre_run from_start)"
    by (simp add: transit_bounds_check_def travel_three_def)
  note main = end_of_sequence_is_bounds_check
    [of from_start travel_three 2 "frame_at 20 0 50" "pre_run from_start" AttributeError
      extrude_three robot_at_home 3 None]
  from main have "except_IndexError_pass
        (transit from_start travel_three 2 (frame_at 20 0 50) (pre_run from_start)) =
      transit_bounds_check from_start travel_three 2 (frame_at 20 0 50) (pre_run from_start)"
    by blast
  with check have c1: "except_IndexError_pass
        (transit from_start travel_three 2 (frame_at 20 0 50) (pre_run from_start)) =
      Inr (pre_run from_start)"
    by simp
  from main hyps(1) have c2: "except_IndexError_pass (Inl (AttributeError, pre_run from_start)) =
      Inl (AttributeError, pre_run from_start)"
    by blast
  from main hyps(2,3) have "move_targets
        (cycle_events from_start extrude_three travel_three robot_at_home 3 2 None) =
      [travel_three ! 2, extrude_three ! 2, travel_three ! 2]"
    by blast
  with vals have c3: "move_targets
        (cycle_events from_start extrude_three travel_three robot_at_home 3 2 None) =
      [frame_at 20 0 50, frame_at 20 0 5, frame_at 20 0 50]"
    by simp
  from main hyps(4,5) have c4: "raised (run from_start extrude_three travel_three robot_at_home) = None"
    by blast
  from hyps c1 c2 c3 c4 show ?thesis by blast
qed

end
